theory Spec2Isabelle
  imports Complex_Main
begin

section \<open>The generic assembler of gtnh/assembler/generic_assembler.py\<close>

text \<open>
  The module defines one class, \<open>GenericAssembler\<close>. Its methods read a release
  descriptor and a modpack manager, and \<open>assemble\<close> writes one zip archive for a side.
  The collaborators live in other modules (\<open>gtnh.defs\<close>, \<open>gtnh.models\<close>,
  \<open>gtnh.modpack_manager\<close>, \<open>gtnh.assembler.downloader\<close>); what the class uses of them
  is a field or a parameter of the model.
\<close>

subsection \<open>Data model\<close>

text \<open>
  Modelled from the spec: the enum \<open>gtnh.defs.Side\<close>, which the module imports. The spec
  gives its three members; the source names all three (\<open>Side.CLIENT\<close>, \<open>Side.SERVER\<close>,
  \<open>Side.BOTH\<close>).
\<close>

datatype Side = CLIENT | SERVER | BOTH

text \<open>
  Modelled from the spec: the enum \<open>gtnh.defs.ModSource\<close>, which the module imports. The
  source names the member \<open>ModSource.github\<close>, the primary source; the spec has a second,
  external source, called \<open>external\<close> here.
\<close>

datatype ModSource = github | external

text \<open>
  \<open>GTNHRelease\<close>: the two mod maps are Python dictionaries from a mod name to a version
  string. \<open>items()\<close> iterates a dictionary in insertion order, so each map is the list of
  its items in that order. \<open>config\<close> is the name of the pinned config version.
\<close>

record GTNHRelease =
  github_mods :: "(string \<times> string) list"
  external_mods :: "(string \<times> string) list"
  config :: string

text \<open>
  \<open>GTNHModpackManager\<close>, as far as the assembler reads it. \<open>'m\<close> is the type of mod info
  objects (\<open>GTNHModInfo | ExternalModInfo\<close>), \<open>'c\<close> that of \<open>GTNHConfig\<close> and \<open>'v\<close> that
  of \<open>GTNHVersion\<close>.
  \<^item> \<open>get_mod_and_version\<close> is \<open>assets.get_mod_and_version\<close>, \<open>None\<close> on a miss;
  \<^item> \<open>assets_config\<close> is \<open>assets.config\<close> and \<open>get_version\<close> its method, \<open>None\<close> on a miss;
  \<^item> \<open>client_exclusions\<close> and \<open>server_exclusions\<close> are the lists of \<open>mod_pack\<close>.
\<close>

record ('m, 'c, 'v) GTNHModpackManager =
  get_mod_and_version :: "string \<Rightarrow> string \<Rightarrow> Side set \<Rightarrow> ModSource \<Rightarrow> ('m \<times> 'v) option"
  assets_config :: 'c
  get_version :: "'c \<Rightarrow> string \<Rightarrow> 'v option"
  client_exclusions :: "string list"
  server_exclusions :: "string list"

text \<open>
  The attributes of a \<open>GenericAssembler\<close>. The two optional progress callbacks are stored
  by the constructor and read by no method of this class; they are left out.
  \<open>delta_progress\<close> is a float that only \<open>set_progress\<close> writes.
\<close>

record ('m, 'c, 'v) GenericAssembler =
  modpack_manager :: "('m, 'c, 'v) GTNHModpackManager"
  release :: GTNHRelease
  exclusions :: "Side \<rightharpoonup> string list"
  delta_progress :: real

text \<open>What the methods raise.\<close>

datatype py_error =
    AssertionError
  | KeyError
  | TypeError
  | FileNotFoundError
  | IsADirectoryError
  | BadZipFile
  | ValueError
  | Exception string

subsection \<open>The constructor\<close>

text \<open>\<open>__init__\<close>: the exclusions dictionary has exactly the keys CLIENT and SERVER.\<close>

definition init ::
  "('m, 'c, 'v) GTNHModpackManager \<Rightarrow> GTNHRelease \<Rightarrow> ('m, 'c, 'v) GenericAssembler" where
  "init gtnh_modpack rel =
     \<lparr> modpack_manager = gtnh_modpack,
       release = rel,
       exclusions = [CLIENT \<mapsto> client_exclusions gtnh_modpack,
                     SERVER \<mapsto> server_exclusions gtnh_modpack],
       delta_progress = 0 \<rparr>"

subsection \<open>\<open>get_mods\<close>\<close>

text \<open>
  \<open>filter(None, xs)\<close> keeps the elements of \<open>xs\<close> that are true. An element here is
  \<open>None\<close> or a pair, and a pair is always true.
\<close>

fun filter_None :: "'a option list \<Rightarrow> 'a list" where
  "filter_None [] = []"
| "filter_None (None # xs) = filter_None xs"
| "filter_None (Some x # xs) = x # filter_None xs"

text \<open>
  \<open>get_mods\<close>, lines 83 to 105. Both comprehensions pass \<open>ModSource.github\<close>, as the
  source does.
\<close>

definition get_mods :: "('m, 'c, 'v) GenericAssembler \<Rightarrow> Side \<Rightarrow> ('m \<times> 'v) list" where
  "get_mods self side =
     (let get_mod = get_mod_and_version (modpack_manager self);
          valid_sides = {side, BOTH};
          github_mods_l =
            map (\<lambda>(name, version). get_mod name version valid_sides github)
              (github_mods (release self));
          external_mods_l =
            map (\<lambda>(name, version). get_mod name version valid_sides github)
              (external_mods (release self))
      in filter_None (github_mods_l @ external_mods_l))"

text \<open>
  The operation \<open>resolveMods\<close> in the words of the spec: every entry is looked up with
  the source of the map it comes from. It is the reference \<open>get_mods\<close> is compared with.
\<close>

definition resolveMods_spec :: "('m, 'c, 'v) GenericAssembler \<Rightarrow> Side \<Rightarrow> ('m \<times> 'v) list" where
  "resolveMods_spec self side =
     (let get_mod = get_mod_and_version (modpack_manager self);
          validSides = {side, BOTH}
      in filter_None
           (map (\<lambda>(name, version). get_mod name version validSides github)
              (github_mods (release self)) @
            map (\<lambda>(name, version). get_mod name version validSides external)
              (external_mods (release self))))"

subsection \<open>\<open>get_config\<close>\<close>

text \<open>
  \<open>get_config\<close>, lines 107 to 117. \<open>assert version\<close> raises AssertionError when
  \<open>get_version\<close> returned \<open>None\<close>; a version object is true. The interpreter runs
  with assertions on, as it does unless it is started with \<open>-O\<close>.
\<close>

definition get_config :: "('m, 'c, 'v) GenericAssembler \<Rightarrow> py_error + ('c \<times> 'v)" where
  "get_config self =
     (let cfg = assets_config (modpack_manager self);
          version = get_version (modpack_manager self) cfg (config (release self))
      in case version of
           None \<Rightarrow> Inl AssertionError
         | Some v \<Rightarrow> Inr (cfg, v))"

subsection \<open>Files, zip archives and actions\<close>

text \<open>
  The file system as the assembler sees it: a path is a string; at a path there is a zip
  archive (the list of its members, in the order of the archive's directory), a file that
  is not a zip archive, or a directory. A member is its name, the compression method it
  was written with, and its bytes.
\<close>

type_synonym path = string

datatype compression = ZIP_STORED | ZIP_DEFLATED

datatype zip_mode = R | W

type_synonym zip_member = "string \<times> compression \<times> string"

datatype node = Archive "zip_member list" | Other_file | Directory

text \<open>
  A \<open>ZipFile\<close> object: \<open>z_id\<close> stands for the identity of the Python object,
  \<open>z_compression\<close> is the method it writes members with, and \<open>z_filelist\<close> is the
  directory read when the archive was opened (empty for a new archive).
\<close>

record ZipFile =
  z_id :: nat
  z_path :: path
  z_mode :: zip_mode
  z_compression :: compression
  z_filelist :: "zip_member list"

text \<open>
  The world outside the assembler: the files, the identities of the \<open>ZipFile\<close> objects
  that hold their file open, and the identity the next object gets.
\<close>

record world =
  fs :: "path \<rightharpoonup> node"
  open_files :: "nat set"
  next_id :: nat

text \<open>The log lines of \<open>assemble\<close>, by what they say.\<close>

datatype log_msg =
    Previous_archive_deleted path
  | Constructing_archive Side path
  | Adding_mods
  | Adding_config
  | Archive_created

text \<open>
  What an action does that is seen from outside, in the order it happens. Opening a path
  for writing makes a new file when there is nothing at the path (\<open>Created\<close>) and empties
  the file that is there otherwise (\<open>Truncated\<close>).
\<close>

datatype event =
    Removed path
  | Log_warn log_msg
  | Log_info log_msg
  | Created path
  | Truncated path
  | Opened nat path zip_mode compression
  | Closed nat
  | Wrote nat string

text \<open>
  An action runs in a world and gives what it returns or raises, the events it caused and
  the world it leaves. \<open>seq\<close> runs a second action after a first one that returned, and
  stops at an exception.
\<close>

type_synonym 'a action = "world \<Rightarrow> (py_error + 'a) \<times> event list \<times> world"

definition returns :: "'a \<Rightarrow> 'a action" where
  "returns x w = (Inr x, [], w)"

definition raises :: "py_error \<Rightarrow> 'a action" where
  "raises e w = (Inl e, [], w)"

definition result :: "py_error + 'a \<Rightarrow> 'a action" where
  "result r w = (r, [], w)"

definition emit :: "event \<Rightarrow> unit action" where
  "emit ev w = (Inr (), [ev], w)"

definition seq :: "'a action \<Rightarrow> ('a \<Rightarrow> 'b action) \<Rightarrow> 'b action" where
  "seq m f w =
     (case m w of
        (Inl e, evs, w1) \<Rightarrow> (Inl e, evs, w1)
      | (Inr x, evs, w1) \<Rightarrow>
          (case f x w1 of (r, evs2, w2) \<Rightarrow> (r, evs @ evs2, w2)))"

text \<open>
  \<open>ZipFile(file, mode, compression)\<close>. Mode \<open>"r"\<close> needs a zip archive at the path and
  reads its directory. Mode \<open>"w"\<close> creates the file or truncates the one that is there,
  so an empty archive is at the path as soon as the object exists. Opening a directory
  fails in both modes.
\<close>

definition new_ZipFile ::
  "path \<Rightarrow> zip_mode \<Rightarrow> compression \<Rightarrow> zip_member list \<Rightarrow> ZipFile action" where
  "new_ZipFile file mode compr members w =
     (let z = \<lparr> z_id = next_id w, z_path = file, z_mode = mode,
                 z_compression = compr, z_filelist = members \<rparr>
      in (Inr z, [Opened (next_id w) file mode compr],
          w\<lparr> open_files := insert (next_id w) (open_files w),
             next_id := Suc (next_id w) \<rparr>))"

definition ZipFile_open :: "path \<Rightarrow> zip_mode \<Rightarrow> compression \<Rightarrow> ZipFile action" where
  "ZipFile_open file mode compr w =
     (case mode of
        R \<Rightarrow>
          (case fs w file of
             None \<Rightarrow> raises FileNotFoundError w
           | Some Directory \<Rightarrow> raises IsADirectoryError w
           | Some Other_file \<Rightarrow> raises BadZipFile w
           | Some (Archive members) \<Rightarrow> new_ZipFile file R compr members w)
      | W \<Rightarrow>
          (case fs w file of
             Some Directory \<Rightarrow> raises IsADirectoryError w
           | existing \<Rightarrow>
               seq (emit (if existing = None then Created file else Truncated file))
                 (\<lambda>_. new_ZipFile file W compr [])
                 (w\<lparr> fs := (fs w)(file \<mapsto> Archive []) \<rparr>)))"

text \<open>\<open>ZipFile.close\<close> releases the file, whatever state the object is in.\<close>

definition ZipFile_close :: "ZipFile \<Rightarrow> unit action" where
  "ZipFile_close z w = (Inr (), [Closed (z_id z)], w\<lparr> open_files := open_files w - {z_id z} \<rparr>)"

text \<open>
  \<open>with ZipFile(file, mode, compression) as z: body\<close>. When the constructor raises,
  the body does not run. Otherwise the body runs, then \<open>__exit__\<close> closes the object
  whether the body returned or raised, and what the body returned or raised goes on to
  the caller.
\<close>

definition with_ZipFile ::
  "path \<Rightarrow> zip_mode \<Rightarrow> compression \<Rightarrow> (ZipFile \<Rightarrow> 'a action) \<Rightarrow> 'a action" where
  "with_ZipFile file mode compr body w =
     (case ZipFile_open file mode compr w of
        (Inl e, evs, w1) \<Rightarrow> (Inl e, evs, w1)
      | (Inr z, evs, w1) \<Rightarrow>
          (case body z w1 of
             (r, evs2, w2) \<Rightarrow>
               (case ZipFile_close z w2 of
                  (_, evs3, w3) \<Rightarrow> (r, evs @ evs2 @ evs3, w3))))"

text \<open>\<open>ZipFile.namelist\<close>: the names of the directory, in its order.\<close>

definition namelist :: "ZipFile \<Rightarrow> string list" where
  "namelist z = map fst (z_filelist z)"

subsection \<open>\<open>get_amount_of_files_in_config\<close>\<close>

text \<open>
  The comprehension of line 81,
  \<open>[item for item in config_zip.namelist() if item not in self.exclusions[side]]\<close>.
  The condition is evaluated once for each item, and its dictionary lookup raises
  KeyError for a side that is not a key. With no item the condition is never evaluated.
\<close>

fun items_not_excluded ::
  "(Side \<rightharpoonup> string list) \<Rightarrow> Side \<Rightarrow> string list \<Rightarrow> py_error + string list" where
  "items_not_excluded excl side [] = Inr []"
| "items_not_excluded excl side (item # items) =
     (case excl side of
        None \<Rightarrow> Inl KeyError
      | Some excluded \<Rightarrow>
          (case items_not_excluded excl side items of
             Inl e \<Rightarrow> Inl e
           | Inr kept \<Rightarrow> Inr (if item \<notin> set excluded then item # kept else kept)))"

text \<open>
  \<open>get_amount_of_files_in_config\<close>, lines 67 to 81. The first argument is the function
  \<open>get_asset_version_cache_location\<close> of \<open>gtnh.assembler.downloader\<close>, which gives the
  path of the cached file of an asset version.
\<close>

definition get_amount_of_files_in_config ::
  "('c \<Rightarrow> 'v \<Rightarrow> path) \<Rightarrow> ('m, 'c, 'v) GenericAssembler \<Rightarrow> Side \<Rightarrow> nat action" where
  "get_amount_of_files_in_config get_asset_version_cache_location self side =
     seq (result (get_config self)) (\<lambda>(modpack_config, config_version).
       let config_file = get_asset_version_cache_location modpack_config config_version
       in with_ZipFile config_file R ZIP_DEFLATED (\<lambda>config_zip.
            result (map_sum id length
              (items_not_excluded (exclusions self) side (namelist config_zip)))))"

subsection \<open>The methods a subclass implements\<close>

text \<open>
  In this class the bodies of \<open>add_mods\<close>, \<open>add_config\<close>, \<open>update_progress\<close> and
  \<open>get_archive_path\<close> are the placeholder \<open>pass\<close>: they do nothing and return \<open>None\<close>.
  \<open>assemble\<close> calls them through \<open>self\<close>, so it runs the methods of the subclass it is
  called on.
\<close>

definition add_mods :: "Side \<Rightarrow> ('m \<times> 'v) list \<Rightarrow> ZipFile \<Rightarrow> bool \<Rightarrow> unit action" where
  "add_mods side mods archive verbose = returns ()"

definition add_config :: "Side \<Rightarrow> ('c \<times> 'v) \<Rightarrow> ZipFile \<Rightarrow> bool \<Rightarrow> unit action" where
  "add_config side cfg archive verbose = returns ()"

definition update_progress :: "Side \<Rightarrow> path \<Rightarrow> bool \<Rightarrow> unit action" where
  "update_progress side source_file verbose = returns ()"

definition get_archive_path :: "Side \<Rightarrow> path option" where
  "get_archive_path side = None"

text \<open>
  The methods \<open>assemble\<close> calls, as the object it runs on has them. \<open>get_archive_path\<close>
  is a function of the side and has no effect; \<open>None\<close> is Python's \<open>None\<close>.
\<close>

record ('m, 'c, 'v) methods =
  m_add_mods :: "Side \<Rightarrow> ('m \<times> 'v) list \<Rightarrow> ZipFile \<Rightarrow> bool \<Rightarrow> unit action"
  m_add_config :: "Side \<Rightarrow> ('c \<times> 'v) \<Rightarrow> ZipFile \<Rightarrow> bool \<Rightarrow> unit action"
  m_get_archive_path :: "Side \<Rightarrow> path option"

definition GenericAssembler_methods :: "('m, 'c, 'v) methods" where
  "GenericAssembler_methods =
     \<lparr> m_add_mods = add_mods, m_add_config = add_config,
       m_get_archive_path = get_archive_path \<rparr>"

subsection \<open>\<open>assemble\<close>\<close>

text \<open>
  \<open>os.path.exists\<close> is true for a file and for a directory. \<open>os.remove\<close> deletes a
  file and raises for a directory and for a path with nothing at it.
\<close>

definition os_path_exists :: "path \<Rightarrow> world \<Rightarrow> bool" where
  "os_path_exists file w = (fs w file \<noteq> None)"

definition os_remove :: "path \<Rightarrow> unit action" where
  "os_remove file w =
     (case fs w file of
        None \<Rightarrow> raises FileNotFoundError w
      | Some Directory \<Rightarrow> raises IsADirectoryError w
      | Some _ \<Rightarrow> (Inr (), [Removed file], w\<lparr> fs := (fs w)(file := None) \<rparr>))"

text \<open>
  \<open>assemble\<close>, lines 158 to 183.
  \<^item> With \<open>None\<close> for the archive path, \<open>os.path.exists\<close> raises TypeError.
  \<^item> Line 178 calls \<open>get_archive_path\<close> a second time; the method is a function of the
    side, so the call gives \<open>archive_name\<close> again.
  \<^item> Line 178 gives \<open>ZipFile\<close> no compression argument, and the default of the
    constructor is \<open>ZIP_STORED\<close>.
  \<^item> The arguments \<open>self.get_mods(side)\<close> and \<open>self.get_config()\<close> are evaluated
    inside the \<open>with\<close> block, before the call they are passed to.
\<close>

definition assemble ::
  "('m, 'c, 'v) methods \<Rightarrow> ('m, 'c, 'v) GenericAssembler \<Rightarrow> Side \<Rightarrow> bool \<Rightarrow> unit action" where
  "assemble ms self side verbose =
     (if side \<notin> {CLIENT, SERVER}
      then raises (Exception ''Can only assemble release for CLIENT or SERVER, not BOTH'')
      else
        (case m_get_archive_path ms side of
           None \<Rightarrow> raises TypeError
         | Some archive_name \<Rightarrow>
             seq (\<lambda>w. if os_path_exists archive_name w
                      then seq (os_remove archive_name)
                             (\<lambda>_. emit (Log_warn (Previous_archive_deleted archive_name))) w
                      else returns () w) (\<lambda>_.
             seq (emit (Log_info (Constructing_archive side archive_name))) (\<lambda>_.
             with_ZipFile archive_name W ZIP_STORED (\<lambda>archive.
               seq (emit (Log_info Adding_mods)) (\<lambda>_.
               seq (m_add_mods ms side (get_mods self side) archive verbose) (\<lambda>_.
               seq (emit (Log_info Adding_config)) (\<lambda>_.
               seq (result (get_config self)) (\<lambda>cfg.
               seq (m_add_config ms side cfg archive verbose) (\<lambda>_.
               emit (Log_info Archive_created)))))))))))"

subsection \<open>\<open>add_config\<close> as the spec describes it\<close>

text \<open>
  \<open>ZipFile.writestr(name, data)\<close>: the object must be open in mode \<open>"w"\<close>; the member
  is appended to the archive at the object's path and is written with the object's
  compression method.
\<close>

definition ZipFile_writestr :: "ZipFile \<Rightarrow> string \<Rightarrow> string \<Rightarrow> unit action" where
  "ZipFile_writestr z name data w =
     (if z_mode z \<noteq> W \<or> z_id z \<notin> open_files w then raises ValueError w
      else
        (Inr (), [Wrote (z_id z) name],
         (case fs w (z_path z) of
            Some (Archive members) \<Rightarrow>
              w\<lparr> fs := (fs w)(z_path z \<mapsto> Archive (members @ [(name, z_compression z, data)])) \<rparr>
          | _ \<Rightarrow> w)))"

text \<open>
  Modelled from the spec: the body of \<open>add_config\<close>. In generic_assembler.py it is the
  placeholder \<open>pass\<close>, and the subclasses that implement it are not among the sources.
  The spec: open the cached config archive and copy every entry not listed in the side's
  exclusion list into the output archive, preserving relative paths and file contents
  byte for byte; after each entry copied, invoke \<open>updateProgress\<close>.
\<close>

fun copy_entries ::
  "(Side \<rightharpoonup> string list) \<Rightarrow> Side \<Rightarrow> ZipFile \<Rightarrow> zip_member list \<Rightarrow> unit action" where
  "copy_entries excl side archive [] = returns ()"
| "copy_entries excl side archive ((name, compr, data) # entries) =
     (case excl side of
        None \<Rightarrow> raises KeyError
      | Some excluded \<Rightarrow>
          if name \<notin> set excluded
          then seq (ZipFile_writestr archive name data) (\<lambda>_.
               seq (update_progress side name False) (\<lambda>_.
               copy_entries excl side archive entries))
          else copy_entries excl side archive entries)"

definition add_config_spec ::
  "('c \<Rightarrow> 'v \<Rightarrow> path) \<Rightarrow> ('m, 'c, 'v) GenericAssembler \<Rightarrow>
     Side \<Rightarrow> ('c \<times> 'v) \<Rightarrow> ZipFile \<Rightarrow> bool \<Rightarrow> unit action" where
  "add_config_spec get_asset_version_cache_location self side cfg archive verbose =
     (case cfg of (modpack_config, config_version) \<Rightarrow>
        with_ZipFile (get_asset_version_cache_location modpack_config config_version)
          R ZIP_STORED
          (\<lambda>config_zip. copy_entries (exclusions self) side archive (z_filelist config_zip)))"

text \<open>The names an action wrote through the \<open>ZipFile\<close> object with a given identity.\<close>

fun written_names :: "nat \<Rightarrow> event list \<Rightarrow> string list" where
  "written_names i [] = []"
| "written_names i (Wrote j name # evs) =
     (if i = j then name # written_names i evs else written_names i evs)"
| "written_names i (_ # evs) = written_names i evs"

text \<open>
  The members \<open>copy_entries\<close> appends to the output archive: the entries that are not
  excluded, under their names and with their bytes, written with the compression method
  of the output object.
\<close>

definition copied :: "string list \<Rightarrow> ZipFile \<Rightarrow> zip_member list \<Rightarrow> zip_member list" where
  "copied excluded archive entries =
     map (\<lambda>(name, compr, data). (name, z_compression archive, data))
       (filter (\<lambda>entry. fst entry \<notin> set excluded) entries)"

subsection \<open>Concrete collaborators for the examples\<close>

text \<open>
  A manager whose lookup answers every request and records the request in the mod info it
  returns: the name, the valid sides and the source it was called with. Its config object
  is the string \<open>''config''\<close> with the single version \<open>''v7''\<close>.
\<close>

definition echo_manager ::
  "(string \<times> Side set \<times> ModSource, string, string) GTNHModpackManager" where
  "echo_manager =
     \<lparr> get_mod_and_version = (\<lambda>name version sides source. Some ((name, sides, source), version)),
       assets_config = ''config'',
       get_version = (\<lambda>c name. if name = ''v7'' then Some name else None),
       client_exclusions = [],
       server_exclusions = [''configs/debug.cfg''] \<rparr>"

text \<open>A manager that knows the mod Forge for the server side only.\<close>

definition forge_manager :: "(string, string, string) GTNHModpackManager" where
  "forge_manager =
     \<lparr> get_mod_and_version =
         (\<lambda>name version sides source.
            if name = ''Forge'' \<and> SERVER \<in> sides then Some (''Forge.jar'', version) else None),
       assets_config = ''config'',
       get_version = (\<lambda>c name. if name = ''v7'' then Some name else None),
       client_exclusions = [],
       server_exclusions = [''configs/debug.cfg''] \<rparr>"

definition release_external_only :: GTNHRelease where
  "release_external_only =
     \<lparr> github_mods = [], external_mods = [(''X'', ''1.0'')], config = ''v7'' \<rparr>"

definition release_forge :: GTNHRelease where
  "release_forge =
     \<lparr> github_mods = [(''Forge'', ''1.0''), (''Gone'', ''2.0'')],
       external_mods = [(''Forge'', ''3.0'')], config = ''v7'' \<rparr>"

definition release_bad_config :: GTNHRelease where
  "release_bad_config =
     \<lparr> github_mods = [], external_mods = [], config = ''v8'' \<rparr>"

text \<open>
  A cache with the config archive of version v7 (three members), and the same cache with an
  archive that has no member.
\<close>

definition cache_location :: "string \<Rightarrow> string \<Rightarrow> path" where
  "cache_location asset version = ''cache/'' @ asset @ ''/'' @ version @ ''.zip''"

definition config_archive :: "zip_member list" where
  "config_archive =
     [(''configs/main.cfg'', ZIP_DEFLATED, ''a=1''),
      (''configs/debug.cfg'', ZIP_DEFLATED, ''debug=1''),
      (''configs/extra.cfg'', ZIP_DEFLATED, ''b=2'')]"

definition world_cached :: world where
  "world_cached =
     \<lparr> fs = [''cache/config/v7.zip'' \<mapsto> Archive config_archive],
       open_files = {}, next_id = 0 \<rparr>"

definition world_empty_config :: world where
  "world_empty_config =
     \<lparr> fs = [''cache/config/v7.zip'' \<mapsto> Archive []], open_files = {}, next_id = 0 \<rparr>"

text \<open>
  Three sets of methods of a subclass. All give the archive a path under \<open>release/\<close>.
  \<open>path_methods\<close> keeps the placeholders for the rest, \<open>zip_methods\<close> copies the config
  as the spec describes, and the \<open>add_mods\<close> of \<open>failing_methods\<close> raises.
\<close>

definition release_path :: "Side \<Rightarrow> path option" where
  "release_path side =
     Some (case side of CLIENT \<Rightarrow> ''release/client.zip''
                      | SERVER \<Rightarrow> ''release/server.zip''
                      | BOTH \<Rightarrow> ''release/both.zip'')"

definition path_methods :: "(string, string, string) methods" where
  "path_methods = GenericAssembler_methods\<lparr> m_get_archive_path := release_path \<rparr>"

definition zip_methods ::
  "(string, string, string) GenericAssembler \<Rightarrow> (string, string, string) methods" where
  "zip_methods self =
     \<lparr> m_add_mods = add_mods, m_add_config = add_config_spec cache_location self,
       m_get_archive_path = release_path \<rparr>"

definition failing_methods :: "(string, string, string) methods" where
  "failing_methods =
     \<lparr> m_add_mods = (\<lambda>side mods archive verbose. raises ValueError),
       m_add_config = add_config, m_get_archive_path = release_path \<rparr>"

text \<open>
  A world with an archive from an earlier run at the server path; the \<open>ZipFile\<close> object
  \<open>assemble\<close> has open while it adds the config, and the world at that moment.
\<close>

definition world_previous :: world where
  "world_previous =
     \<lparr> fs = [''cache/config/v7.zip'' \<mapsto> Archive config_archive,
              ''release/server.zip'' \<mapsto> Archive [(''old.cfg'', ZIP_STORED, ''old'')]],
       open_files = {}, next_id = 0 \<rparr>"

definition output_archive :: ZipFile where
  "output_archive =
     \<lparr> z_id = 0, z_path = ''release/server.zip'', z_mode = W,
       z_compression = ZIP_STORED, z_filelist = [] \<rparr>"

definition world_assembling :: world where
  "world_assembling =
     \<lparr> fs = [''cache/config/v7.zip'' \<mapsto> Archive config_archive,
              ''release/server.zip'' \<mapsto> Archive []],
       open_files = {0}, next_id = 1 \<rparr>"

section \<open>Properties\<close>

subsection \<open>Helper facts\<close>

lemma filter_None_append: "filter_None (xs @ ys) = filter_None xs @ filter_None ys"
  by (induction xs rule: filter_None.induct) simp_all

lemma map_Some_filter_None: "map Some (filter_None xs) = filter (\<lambda>r. r \<noteq> None) xs"
  by (induction xs rule: filter_None.induct) simp_all

lemma set_filter_None: "set (filter_None xs) = {x. Some x \<in> set xs}"
  by (induction xs rule: filter_None.induct) auto

lemma items_not_excluded_key:
  "excl side = Some excluded \<Longrightarrow>
     items_not_excluded excl side items = Inr (filter (\<lambda>item. item \<notin> set excluded) items)"
  by (induction items) simp_all

lemma items_not_excluded_no_key:
  "excl side = None \<Longrightarrow>
     items_not_excluded excl side items = (if items = [] then Inr [] else Inl KeyError)"
  by (cases items) simp_all

lemma init_exclusions:
  "exclusions (init m r) side =
     (case side of CLIENT \<Rightarrow> Some (client_exclusions m)
                 | SERVER \<Rightarrow> Some (server_exclusions m)
                 | BOTH \<Rightarrow> None)"
  by (cases side) (simp_all add: init_def)

text \<open>Reading an archive inside a \<open>with\<close> block: one object is opened and closed.\<close>

lemma with_ZipFile_read_archive:
  "fs w file = Some (Archive members) \<Longrightarrow>
   with_ZipFile file R compr (\<lambda>z. result (f z)) w =
     (f \<lparr> z_id = next_id w, z_path = file, z_mode = R, z_compression = compr,
          z_filelist = members \<rparr>,
      [Opened (next_id w) file R compr, Closed (next_id w)],
      w\<lparr> open_files := open_files w - {next_id w}, next_id := Suc (next_id w) \<rparr>)"
  by (simp add: with_ZipFile_def ZipFile_open_def new_ZipFile_def ZipFile_close_def
      result_def Let_def)

lemma get_amount_of_files_in_config_run:
  assumes "get_config self = Inr (cfg, v)"
    and "fs w (loc cfg v) = Some (Archive members)"
  shows "get_amount_of_files_in_config loc self side w =
     (map_sum id length (items_not_excluded (exclusions self) side (map fst members)),
      [Opened (next_id w) (loc cfg v) R ZIP_DEFLATED, Closed (next_id w)],
      w\<lparr> open_files := open_files w - {next_id w}, next_id := Suc (next_id w) \<rparr>)"
  using assms
  by (simp add: get_amount_of_files_in_config_def seq_def result_def [of "Inr (cfg, v)"]
      with_ZipFile_read_archive namelist_def)

text \<open>Writing an archive inside a \<open>with\<close> block, and \<open>assemble\<close> up to the block.\<close>

lemma with_ZipFile_write_run:
  assumes "fs w file \<noteq> Some Directory"
  shows "with_ZipFile file W compr body w =
     (case body \<lparr> z_id = next_id w, z_path = file, z_mode = W, z_compression = compr,
                   z_filelist = [] \<rparr>
             (w\<lparr> fs := (fs w)(file \<mapsto> Archive []),
                open_files := insert (next_id w) (open_files w),
                next_id := Suc (next_id w) \<rparr>) of
        (r, evs, w2) \<Rightarrow>
          (r, (if fs w file = None then Created file else Truncated file)
              # Opened (next_id w) file W compr # evs @ [Closed (next_id w)],
           w2\<lparr> open_files := open_files w2 - {next_id w} \<rparr>))"
proof (cases "fs w file")
  case None
  then show ?thesis
    by (simp add: with_ZipFile_def ZipFile_open_def new_ZipFile_def ZipFile_close_def
        seq_def emit_def Let_def split: prod.splits)
next
  case (Some n)
  with assms show ?thesis
    by (cases n)
      (simp_all add: with_ZipFile_def ZipFile_open_def new_ZipFile_def ZipFile_close_def
        seq_def emit_def Let_def split: prod.splits)
qed

lemma assemble_run:
  assumes "side \<in> {CLIENT, SERVER}"
    and "m_get_archive_path ms side = Some p"
    and "fs w p \<noteq> Some Directory"
  shows "assemble ms self side verbose w =
     (case with_ZipFile p W ZIP_STORED (\<lambda>archive.
               seq (emit (Log_info Adding_mods)) (\<lambda>_.
               seq (m_add_mods ms side (get_mods self side) archive verbose) (\<lambda>_.
               seq (emit (Log_info Adding_config)) (\<lambda>_.
               seq (result (get_config self)) (\<lambda>cfg.
               seq (m_add_config ms side cfg archive verbose) (\<lambda>_.
               emit (Log_info Archive_created)))))))
             (w\<lparr> fs := (fs w)(p := None) \<rparr>) of
        (r, evs, w') \<Rightarrow>
          (r, (if fs w p = None then [] else [Removed p, Log_warn (Previous_archive_deleted p)])
              @ Log_info (Constructing_archive side p) # evs, w'))"
proof (cases "fs w p")
  case None
  then have "w\<lparr> fs := (fs w)(p := None) \<rparr> = w"
    by (simp add: fun_upd_idem)
  with None assms(1,2) show ?thesis
    by (simp add: assemble_def seq_def os_path_exists_def returns_def emit_def
        split: prod.splits sum.splits)
next
  case (Some n)
  with assms show ?thesis
    by (cases n)
      (simp_all add: assemble_def seq_def os_path_exists_def os_remove_def returns_def emit_def
        split: prod.splits sum.splits)
qed


lemma assemble_unfolded:
  assumes "side \<in> {CLIENT, SERVER}"
    and "m_get_archive_path ms side = Some p"
    and "fs w p \<noteq> Some Directory"
  shows "assemble ms self side verbose w =
     (case seq (emit (Log_info Adding_mods)) (\<lambda>_.
               seq (m_add_mods ms side (get_mods self side)
                      \<lparr> z_id = next_id w, z_path = p, z_mode = W,
                        z_compression = ZIP_STORED, z_filelist = [] \<rparr> verbose) (\<lambda>_.
               seq (emit (Log_info Adding_config)) (\<lambda>_.
               seq (result (get_config self)) (\<lambda>cfg.
               seq (m_add_config ms side cfg
                      \<lparr> z_id = next_id w, z_path = p, z_mode = W,
                        z_compression = ZIP_STORED, z_filelist = [] \<rparr> verbose) (\<lambda>_.
               emit (Log_info Archive_created))))))
             (w\<lparr> fs := (fs w)(p \<mapsto> Archive []),
                open_files := insert (next_id w) (open_files w),
                next_id := Suc (next_id w) \<rparr>) of
        (r, evs, w') \<Rightarrow>
          (r, (if fs w p = None then [] else [Removed p, Log_warn (Previous_archive_deleted p)])
              @ [Log_info (Constructing_archive side p), Created p,
                 Opened (next_id w) p W ZIP_STORED]
              @ evs @ [Closed (next_id w)],
           w'\<lparr> open_files := open_files w' - {next_id w} \<rparr>))"
proof -
  have "fs (w\<lparr> fs := (fs w)(p := None) \<rparr>) p \<noteq> Some Directory"
    by simp
  then show ?thesis
    by (simp add: assemble_run [OF assms] with_ZipFile_write_run split: prod.splits)
qed

lemma copied_keep:
  "name \<notin> set excluded \<Longrightarrow>
     copied excluded archive ((name, compr, data) # entries) =
       (name, z_compression archive, data) # copied excluded archive entries"
  by (simp add: copied_def)

lemma copied_skip:
  "name \<in> set excluded \<Longrightarrow>
     copied excluded archive ((name, compr, data) # entries) = copied excluded archive entries"
  by (simp add: copied_def)

lemma copy_entries_run:
  assumes "excl side = Some excluded"
    and "z_mode archive = W"
    and "z_id archive \<in> open_files w"
    and "fs w (z_path archive) = Some (Archive out)"
  shows "copy_entries excl side archive entries w =
     (Inr (),
      map (\<lambda>entry. Wrote (z_id archive) (fst entry))
        (filter (\<lambda>entry. fst entry \<notin> set excluded) entries),
      w\<lparr> fs := (fs w)(z_path archive \<mapsto> Archive (out @ copied excluded archive entries)) \<rparr>)"
  using assms
proof (induction entries arbitrary: w out)
  case Nil
  then show ?case
    by (simp add: returns_def copied_def fun_upd_idem)
next
  case (Cons entry entries)
  obtain name compr data where entry: "entry = (name, compr, data)"
    by (cases entry) auto
  show ?case
  proof (cases "name \<in> set excluded")
    case True
    with Cons show ?thesis
      by (simp add: entry copied_skip)
  next
    case False
    let ?w1 = "w\<lparr> fs := (fs w)(z_path archive \<mapsto>
                 Archive (out @ [(name, z_compression archive, data)])) \<rparr>"
    have step: "ZipFile_writestr archive name data w =
                  (Inr (), [Wrote (z_id archive) name], ?w1)"
      using Cons.prems by (simp add: ZipFile_writestr_def)
    have w_eq: "?w1\<lparr> fs := (fs ?w1)(z_path archive \<mapsto> Archive ys) \<rparr>
                  = w\<lparr> fs := (fs w)(z_path archive \<mapsto> Archive ys) \<rparr>" for ys
      by (cases w) simp
    have "copy_entries excl side archive entries ?w1 =
        (Inr (),
         map (\<lambda>entry. Wrote (z_id archive) (fst entry))
           (filter (\<lambda>entry. fst entry \<notin> set excluded) entries),
         ?w1\<lparr> fs := (fs ?w1)(z_path archive \<mapsto>
                 Archive ((out @ [(name, z_compression archive, data)])
                          @ copied excluded archive entries)) \<rparr>)"
      using Cons.prems by (intro Cons.IH) simp_all
    then have rest: "copy_entries excl side archive entries ?w1 =
        (Inr (),
         map (\<lambda>entry. Wrote (z_id archive) (fst entry))
           (filter (\<lambda>entry. fst entry \<notin> set excluded) entries),
         w\<lparr> fs := (fs w)(z_path archive \<mapsto>
                 Archive (out @ (name, z_compression archive, data)
                          # copied excluded archive entries)) \<rparr>)"
      by (simp only: w_eq append_assoc append_Cons append_Nil)
    from False Cons.prems(1) show ?thesis
      by (simp add: entry seq_def step rest update_progress_def returns_def copied_keep
          del: fun_upd_apply)
  qed
qed

lemma written_names_map_Wrote:
  "written_names i (map (\<lambda>entry. Wrote i (fst entry)) entries) = map fst entries"
  by (induction entries) simp_all

lemma written_names_append:
  "written_names i (xs @ ys) = written_names i xs @ written_names i ys"
  by (induction i xs rule: written_names.induct) simp_all

lemma add_config_spec_run:
  assumes "exclusions self side = Some excluded"
    and "fs w (loc c v) = Some (Archive members)"
    and "z_mode archive = W"
    and "z_id archive \<in> open_files w"
    and "z_id archive \<noteq> next_id w"
    and "fs w (z_path archive) = Some (Archive out)"
  shows "add_config_spec loc self side (c, v) archive verbose w =
     (Inr (),
      Opened (next_id w) (loc c v) R ZIP_STORED #
        map (\<lambda>entry. Wrote (z_id archive) (fst entry))
          (filter (\<lambda>entry. fst entry \<notin> set excluded) members)
        @ [Closed (next_id w)],
      w\<lparr> fs := (fs w)(z_path archive \<mapsto> Archive (out @ copied excluded archive members)),
         open_files := open_files w - {next_id w},
         next_id := Suc (next_id w) \<rparr>)"
proof -
  let ?w1 = "w\<lparr> open_files := insert (next_id w) (open_files w), next_id := Suc (next_id w) \<rparr>"
  have "copy_entries (exclusions self) side archive members ?w1 =
     (Inr (),
      map (\<lambda>entry. Wrote (z_id archive) (fst entry))
        (filter (\<lambda>entry. fst entry \<notin> set excluded) members),
      ?w1\<lparr> fs := (fs ?w1)(z_path archive \<mapsto> Archive (out @ copied excluded archive members)) \<rparr>)"
    using assms by (intro copy_entries_run) simp_all
  with assms(2,5) show ?thesis
    by (simp add: add_config_spec_def with_ZipFile_def ZipFile_open_def new_ZipFile_def
        ZipFile_close_def Let_def)
qed

lemmas more_defs = release_path_def path_methods_def zip_methods_def failing_methods_def
  world_previous_def output_archive_def world_assembling_def GenericAssembler_methods_def

lemmas run_defs = assemble_def seq_def returns_def raises_def result_def emit_def
  with_ZipFile_def ZipFile_open_def new_ZipFile_def ZipFile_close_def os_path_exists_def
  os_remove_def add_mods_def add_config_def get_mods_def get_config_def
  add_config_spec_def ZipFile_writestr_def update_progress_def

lemmas example_defs =
  init_def echo_manager_def forge_manager_def release_external_only_def release_forge_def
  release_bad_config_def cache_location_def config_archive_def world_cached_def
  world_empty_config_def

subsection \<open>Resolving mods\<close>

text \<open>
  C1. The claim: \<open>get_mods\<close> looks every entry up with the source of the map it comes
  from. The code passes \<open>ModSource.github\<close> for the entries of the external map too. For
  the release whose only mod is the external mod X at 1.0, the recording manager shows
  the call the code makes, with source \<open>github\<close>, beside the call the spec describes,
  with source \<open>external\<close>.
\<close>

theorem get_mods_external_entry_uses_github:
  "get_mods (init echo_manager release_external_only) CLIENT
     = [((''X'', {CLIENT, BOTH}, github), ''1.0'')]
   \<and> resolveMods_spec (init echo_manager release_external_only) CLIENT
     = [((''X'', {CLIENT, BOTH}, external), ''1.0'')]"
  by (simp add: get_mods_def resolveMods_spec_def init_def echo_manager_def
      release_external_only_def)

text \<open>
  C2. \<open>get_mods\<close> returns exactly the lookups that succeeded: wrapped in \<open>Some\<close>, its
  result is the list of the lookup results of the primary map followed by those of the
  external map, each in the order of the release's items, with the \<open>None\<close> results
  removed. It is a total function of the assembler and the side, so it raises nothing
  and two calls give the same list.
\<close>

theorem get_mods_resolved_in_order:
  "map Some (get_mods self side) =
     filter (\<lambda>r. r \<noteq> None)
       (map (\<lambda>(name, version).
               get_mod_and_version (modpack_manager self) name version {side, BOTH} github)
          (github_mods (release self)))
     @
     filter (\<lambda>r. r \<noteq> None)
       (map (\<lambda>(name, version).
               get_mod_and_version (modpack_manager self) name version {side, BOTH} github)
          (external_mods (release self)))"
  by (simp add: get_mods_def Let_def filter_None_append map_Some_filter_None)

theorem get_mods_resolved_in_order_witness:
  "map Some (get_mods (init forge_manager release_forge) SERVER) =
     [Some (''Forge.jar'', ''1.0''), Some (''Forge.jar'', ''3.0'')]
   \<and> map Some (get_mods (init forge_manager release_forge) CLIENT) = []"
  using get_mods_resolved_in_order [of "init forge_manager release_forge" SERVER]
        get_mods_resolved_in_order [of "init forge_manager release_forge" CLIENT]
  by (simp add: init_def forge_manager_def release_forge_def)

text \<open>
  C3. \<open>get_config\<close> returns the pair of the config object and the version that
  \<open>get_version\<close> finds for the release's config name, and raises AssertionError when
  \<open>get_version\<close> finds none.
\<close>

theorem get_config_result:
  "(get_version (modpack_manager self) (assets_config (modpack_manager self))
        (config (release self)) = Some v
      \<longrightarrow> get_config self = Inr (assets_config (modpack_manager self), v))
   \<and> (get_version (modpack_manager self) (assets_config (modpack_manager self))
        (config (release self)) = None
      \<longrightarrow> get_config self = Inl AssertionError)"
  by (simp add: get_config_def Let_def)

theorem get_config_result_witness:
  "get_config (init echo_manager release_external_only) = Inr (''config'', ''v7'')
   \<and> get_config (init echo_manager release_bad_config) = Inl AssertionError"
  using get_config_result [of "init echo_manager release_external_only" "''v7''"]
        get_config_result [of "init echo_manager release_bad_config" "''v7''"]
  by (simp add: init_def echo_manager_def release_external_only_def release_bad_config_def)

subsection \<open>Counting the config entries\<close>

text \<open>
  C4. For a side in \<open>{CLIENT, SERVER}\<close>, an assembler whose exclusions are those the
  constructor built, a config version that resolves and a zip archive at its cache
  location: \<open>get_amount_of_files_in_config\<close> returns the number of names of the archive
  that are not in the exclusion list of the side. All it does is open the archive for
  reading and close it: the files are as before, and no object it opened stays open. The
  method assigns to no attribute of \<open>self\<close>, which the model passes as a value.
\<close>

theorem get_amount_of_files_in_config_counts:
  assumes "side \<in> {CLIENT, SERVER}"
    and "exclusions self = exclusions (init (modpack_manager self) (release self))"
    and "get_config self = Inr (cfg, v)"
    and "fs w (loc cfg v) = Some (Archive members)"
  shows "get_amount_of_files_in_config loc self side w =
     (Inr (length (filter
             (\<lambda>item. item \<notin> set (if side = CLIENT
                                      then client_exclusions (modpack_manager self)
                                      else server_exclusions (modpack_manager self)))
             (map fst members))),
      [Opened (next_id w) (loc cfg v) R ZIP_DEFLATED, Closed (next_id w)],
      w\<lparr> open_files := open_files w - {next_id w}, next_id := Suc (next_id w) \<rparr>)"
proof -
  let ?ex = "if side = CLIENT then client_exclusions (modpack_manager self)
             else server_exclusions (modpack_manager self)"
  from assms(1,2) have "exclusions self side = Some ?ex"
    by (auto simp: init_exclusions)
  then show ?thesis
    using assms(3,4)
    by (simp add: get_amount_of_files_in_config_run items_not_excluded_key)
qed

theorem get_amount_of_files_in_config_counts_witness:
  "get_amount_of_files_in_config cache_location (init forge_manager release_forge) SERVER
     world_cached =
   (Inr 2, [Opened 0 ''cache/config/v7.zip'' R ZIP_DEFLATED, Closed 0],
    world_cached\<lparr> next_id := 1 \<rparr>)"
  using get_amount_of_files_in_config_counts
    [where side = SERVER and self = "init forge_manager release_forge"
       and cfg = "''config''" and v = "''v7''" and w = world_cached
       and loc = cache_location and members = config_archive]
  by (simp add: example_defs get_config_def)

text \<open>
  C10. The claim: with side BOTH the method raises a lookup error. The lookup is in the
  condition of the comprehension, which runs once for each name of the archive. For an
  archive with no member it never runs, and the method returns 0.
\<close>

theorem get_amount_of_files_in_config_BOTH_empty_archive:
  "fst (get_amount_of_files_in_config cache_location
          (init echo_manager release_external_only) BOTH world_empty_config) = Inr 0
   \<and> fst (get_amount_of_files_in_config cache_location
          (init echo_manager release_external_only) BOTH world_empty_config) \<noteq> Inl KeyError"
  by (simp add: get_amount_of_files_in_config_def seq_def result_def with_ZipFile_def
      ZipFile_open_def new_ZipFile_def ZipFile_close_def namelist_def get_config_def
      example_defs)

text \<open>
  C10, amended. With side BOTH, an assembler whose exclusions are those the constructor
  built, a config version that resolves and a zip archive at its cache location: the
  method raises KeyError when the archive has at least one member, and returns 0 when it
  has none.
\<close>

theorem get_amount_of_files_in_config_BOTH:
  assumes "exclusions self = exclusions (init (modpack_manager self) (release self))"
    and "get_config self = Inr (cfg, v)"
    and "fs w (loc cfg v) = Some (Archive members)"
  shows "fst (get_amount_of_files_in_config loc self BOTH w) =
     (if members = [] then Inr 0 else Inl KeyError)"
proof -
  from assms(1) have "exclusions self BOTH = None"
    by (simp add: init_exclusions)
  then show ?thesis
    using assms(2,3)
    by (simp add: get_amount_of_files_in_config_run items_not_excluded_no_key)
qed

theorem get_amount_of_files_in_config_BOTH_witness:
  "fst (get_amount_of_files_in_config cache_location (init forge_manager release_forge) BOTH
          world_cached) = Inl KeyError"
  using get_amount_of_files_in_config_BOTH
    [where self = "init forge_manager release_forge"
       and cfg = "''config''" and v = "''v7''" and w = world_cached
       and loc = cache_location and members = config_archive]
  by (simp add: example_defs get_config_def)

subsection \<open>Assembling\<close>

text \<open>
  C5. For a side that is not CLIENT or SERVER, \<open>assemble\<close> raises its exception and has
  done nothing: no event, and the world, with its files, is the one it started in.
\<close>

theorem assemble_rejects_other_sides:
  "side \<notin> {CLIENT, SERVER} \<Longrightarrow>
     assemble ms self side verbose w =
       (Inl (Exception ''Can only assemble release for CLIENT or SERVER, not BOTH''), [], w)"
  by (simp add: assemble_def raises_def)

theorem assemble_rejects_other_sides_witness:
  "assemble path_methods (init forge_manager release_forge) BOTH False world_previous =
     (Inl (Exception ''Can only assemble release for CLIENT or SERVER, not BOTH''), [],
      world_previous)"
  using assemble_rejects_other_sides
    [where side = BOTH and ms = path_methods and self = "init forge_manager release_forge"
       and verbose = False and w = world_previous]
  by simp

text \<open>
  C6. For CLIENT and SERVER and an archive path that is not a directory:
  \<^item> When there is a file at the path, \<open>assemble\<close> starts with five events: it removes
    the file, logs the warning, logs the line about the archive it builds, and the
    opening makes a new file, as it does only when nothing is at the path it opens; the
    file is gone before the archive is opened. When there is nothing at the path, it
    starts with the log line and the opening that makes the file, and removes nothing.
  \<^item> The removal is no error: after the removal and the warning, the run is the run of
    \<open>assemble\<close> in the world whose file system has nothing at the path, with the same
    return value, the same further events and the same final world.
\<close>

theorem assemble_deletes_previous_archive:
  assumes "side \<in> {CLIENT, SERVER}"
    and "m_get_archive_path ms side = Some p"
    and "fs w p \<noteq> Some Directory"
  shows "take (if fs w p = None then 3 else 5) (fst (snd (assemble ms self side verbose w))) =
       (if fs w p = None then [] else [Removed p, Log_warn (Previous_archive_deleted p)])
       @ [Log_info (Constructing_archive side p), Created p, Opened (next_id w) p W ZIP_STORED]
     \<and> assemble ms self side verbose w =
       (case assemble ms self side verbose (w\<lparr> fs := (fs w)(p := None) \<rparr>) of
          (r, evs, w') \<Rightarrow>
            (r, (if fs w p = None then []
                 else [Removed p, Log_warn (Previous_archive_deleted p)]) @ evs, w'))"
proof
  show "take (if fs w p = None then 3 else 5) (fst (snd (assemble ms self side verbose w))) =
       (if fs w p = None then [] else [Removed p, Log_warn (Previous_archive_deleted p)])
       @ [Log_info (Constructing_archive side p), Created p, Opened (next_id w) p W ZIP_STORED]"
    by (simp add: assemble_unfolded [OF assms] split: prod.splits)
next
  let ?w0 = "w\<lparr> fs := (fs w)(p := None) \<rparr>"
  have absent: "fs ?w0 p = None" and not_dir: "fs ?w0 p \<noteq> Some Directory"
    by simp_all
  have start: "?w0\<lparr> fs := (fs ?w0)(p \<mapsto> Archive []),
                     open_files := insert (next_id ?w0) (open_files ?w0),
                     next_id := Suc (next_id ?w0) \<rparr>
               = w\<lparr> fs := (fs w)(p \<mapsto> Archive []),
                     open_files := insert (next_id w) (open_files w),
                     next_id := Suc (next_id w) \<rparr>"
    by (cases w) simp
  have id: "next_id ?w0 = next_id w"
    by simp
  show "assemble ms self side verbose w =
       (case assemble ms self side verbose ?w0 of
          (r, evs, w') \<Rightarrow>
            (r, (if fs w p = None then []
                 else [Removed p, Log_warn (Previous_archive_deleted p)]) @ evs, w'))"
    unfolding assemble_unfolded [OF assms]
      assemble_unfolded [OF assms(1,2) not_dir] start id absent
    by (simp split: prod.splits)
qed

theorem assemble_deletes_previous_archive_witness:
  "take 5 (fst (snd (assemble path_methods (init forge_manager release_forge) SERVER False
                       world_previous))) =
     [Removed ''release/server.zip'', Log_warn (Previous_archive_deleted ''release/server.zip''),
      Log_info (Constructing_archive SERVER ''release/server.zip''),
      Created ''release/server.zip'', Opened 0 ''release/server.zip'' W ZIP_STORED]
   \<and> take 3 (fst (snd (assemble path_methods (init forge_manager release_forge) SERVER False
                       world_cached))) =
     [Log_info (Constructing_archive SERVER ''release/server.zip''),
      Created ''release/server.zip'', Opened 0 ''release/server.zip'' W ZIP_STORED]
   \<and> assemble path_methods (init forge_manager release_forge) SERVER False world_previous =
     (case assemble path_methods (init forge_manager release_forge) SERVER False world_cached of
        (r, evs, w') \<Rightarrow>
          (r, Removed ''release/server.zip''
              # Log_warn (Previous_archive_deleted ''release/server.zip'') # evs, w'))"
  using assemble_deletes_previous_archive
    [where side = SERVER and ms = path_methods and self = "init forge_manager release_forge"
       and verbose = False and w = world_previous and p = "''release/server.zip''"]
    assemble_deletes_previous_archive
    [where side = SERVER and ms = path_methods and self = "init forge_manager release_forge"
       and verbose = False and w = world_cached and p = "''release/server.zip''"]
  by (simp add: example_defs more_defs run_defs)

text \<open>
  C7. The claim: \<open>assemble\<close> opens the output archive as a compressed archive. Line 178
  passes no compression method, so the object writes with \<open>ZIP_STORED\<close>, while the
  archive that line 80 only reads is opened with \<open>ZIP_DEFLATED\<close>. The first run below
  is that of a subclass that only gives the path; the second copies the config as the
  spec describes, and every member of the archive it leaves is stored uncompressed.
\<close>

theorem assemble_opens_archive_stored:
  "assemble path_methods (init forge_manager release_forge) SERVER False world_previous =
     (Inr (),
      [Removed ''release/server.zip'', Log_warn (Previous_archive_deleted ''release/server.zip''),
       Log_info (Constructing_archive SERVER ''release/server.zip''),
       Created ''release/server.zip'', Opened 0 ''release/server.zip'' W ZIP_STORED,
       Log_info Adding_mods, Log_info Adding_config, Log_info Archive_created, Closed 0],
      \<lparr> fs = [''cache/config/v7.zip'' \<mapsto> Archive config_archive,
               ''release/server.zip'' \<mapsto> Archive []],
        open_files = {}, next_id = 1 \<rparr>)
   \<and> assemble (zip_methods (init forge_manager release_forge))
       (init forge_manager release_forge) SERVER False world_previous =
     (Inr (),
      [Removed ''release/server.zip'', Log_warn (Previous_archive_deleted ''release/server.zip''),
       Log_info (Constructing_archive SERVER ''release/server.zip''),
       Created ''release/server.zip'', Opened 0 ''release/server.zip'' W ZIP_STORED,
       Log_info Adding_mods, Log_info Adding_config,
       Opened 1 ''cache/config/v7.zip'' R ZIP_STORED,
       Wrote 0 ''configs/main.cfg'', Wrote 0 ''configs/extra.cfg'', Closed 1,
       Log_info Archive_created, Closed 0],
      \<lparr> fs = [''cache/config/v7.zip'' \<mapsto> Archive config_archive,
               ''release/server.zip'' \<mapsto>
                  Archive [(''configs/main.cfg'', ZIP_STORED, ''a=1''),
                           (''configs/extra.cfg'', ZIP_STORED, ''b=2'')]],
        open_files = {}, next_id = 2 \<rparr>)"
  by (simp add: example_defs more_defs run_defs)



subsection \<open>The count and the copy\<close>

text \<open>
  C9. For CLIENT and SERVER, with the exclusions the constructor built, a config version
  that resolves and the same config archive at its cache location when the entries are
  counted and when they are copied: \<open>add_config\<close>, as the spec describes it, returns,
  and the number \<open>get_amount_of_files_in_config\<close> returns is the number of entries it
  wrote through the output object; the output archive has grown by members with exactly
  those names.
\<close>

theorem count_equals_copied:
  assumes "side \<in> {CLIENT, SERVER}"
    and "exclusions self = exclusions (init (modpack_manager self) (release self))"
    and "get_config self = Inr (c, v)"
    and "fs w (loc c v) = Some (Archive members)"
    and "fs w2 (loc c v) = Some (Archive members)"
    and "z_mode archive = W"
    and "z_id archive \<in> open_files w2"
    and "z_id archive \<noteq> next_id w2"
    and "fs w2 (z_path archive) = Some (Archive out)"
  shows "case add_config_spec loc self side (c, v) archive verbose w2 of
           (r, evs, w') \<Rightarrow>
             r = Inr ()
             \<and> fst (get_amount_of_files_in_config loc self side w)
                 = Inr (length (written_names (z_id archive) evs))
             \<and> (\<exists>new. fs w' (z_path archive) = Some (Archive (out @ new))
                  \<and> map fst new = written_names (z_id archive) evs)"
proof -
  let ?ex = "if side = CLIENT then client_exclusions (modpack_manager self)
             else server_exclusions (modpack_manager self)"
  from assms(1,2) have ex: "exclusions self side = Some ?ex"
    by (auto simp: init_exclusions)
  have names: "map fst (copied ?ex archive members)
                 = map fst (filter (\<lambda>entry. fst entry \<notin> set ?ex) members)"
    by (simp add: copied_def case_prod_unfold comp_def)
  have count: "fst (get_amount_of_files_in_config loc self side w)
                 = Inr (length (filter (\<lambda>entry. fst entry \<notin> set ?ex) members))"
    using assms(3,4) ex
    by (simp add: get_amount_of_files_in_config_run items_not_excluded_key filter_map comp_def)
  show ?thesis
    using count names
    by (simp add: add_config_spec_run [where loc = loc and c = c and v = v, OF ex assms(5-9)] written_names_append
        written_names_map_Wrote)
qed

theorem count_equals_copied_witness:
  "case add_config_spec cache_location (init forge_manager release_forge) SERVER
          (''config'', ''v7'') output_archive False world_assembling of
     (r, evs, w') \<Rightarrow>
       r = Inr ()
       \<and> fst (get_amount_of_files_in_config cache_location
                 (init forge_manager release_forge) SERVER world_cached) = Inr 2
       \<and> written_names 0 evs = [''configs/main.cfg'', ''configs/extra.cfg'']
       \<and> fs w' ''release/server.zip'' =
           Some (Archive [(''configs/main.cfg'', ZIP_STORED, ''a=1''),
                          (''configs/extra.cfg'', ZIP_STORED, ''b=2'')])"
  using count_equals_copied
    [where side = SERVER and self = "init forge_manager release_forge"
       and c = "''config''" and v = "''v7''" and w = world_cached and ?w2.0 = world_assembling
       and loc = cache_location and members = config_archive and archive = output_archive
       and out = "[]" and verbose = False]
  by (simp add: example_defs more_defs run_defs get_amount_of_files_in_config_def namelist_def)

end
